theory Spec2Isabelle
  imports Main "HOL-Library.Word" "HOL-Library.Monad_Syntax"
begin

unbundle bit_operations_syntax

section \<open>The heap of mm.c\<close>

text \<open>
  mm.c stores every pointer in a 4-byte word (\<open>PUT_P\<close> casts a pointer to
  \<open>unsigned int\<close>), so it is a program for a 32-bit target: pointers, \<open>size_t\<close>,
  \<open>unsigned int\<close> and \<open>int\<close> are all 32 bits wide. They are modelled as \<open>32 word\<close>;
  \<open>int\<close> values are read with the signed comparisons \<open><s\<close> and \<open>\<le>s\<close>.

  The memory is a function from byte addresses to the 4-byte word stored there. Every
  access of mm.c is through \<open>GET\<close>/\<open>PUT\<close> on a 4-byte aligned address (when the
  heap starts at an aligned address), so words never overlap.

  A result \<open>None\<close> means that the C function does not return: a list walk that never
  reaches \<open>NULL\<close>, or \<open>memcpy\<close> writing through a null pointer.
\<close>

type_synonym addr = "32 word"

record heap_state =
  mem :: "addr \<Rightarrow> 32 word"
  heap_listp :: addr
  mem_brk :: addr
  mem_max_addr :: addr

abbreviation NULL :: addr where "NULL \<equiv> 0"

subsection \<open>Constants and macros\<close>

definition ALIGN :: "32 word \<Rightarrow> 32 word" where
  "ALIGN sz = (sz + 7) AND NOT 7"

definition WSIZE :: "32 word" where "WSIZE = 4"
definition DSIZE :: "32 word" where "DSIZE = 8"
definition CHUNKSIZE :: "32 word" where "CHUNKSIZE = push_bit 12 1"
definition MAXCLASS :: nat where "MAXCLASS = 15"

text \<open>The macro \<open>MAX\<close> on \<open>size_t\<close> operands (unsigned comparison).\<close>

definition MAX_size :: "32 word \<Rightarrow> 32 word \<Rightarrow> 32 word" where
  "MAX_size x y = (if x > y then x else y)"

text \<open>\<open>MAX\<close> applied to two \<open>int\<close> operands compares them as signed values.\<close>

definition MAX_int :: "32 word \<Rightarrow> 32 word \<Rightarrow> 32 word" where
  "MAX_int x y = (if y <s x then x else y)"

text \<open>The negation \<open>-x\<close> of an \<open>int\<close>. For the least \<open>int\<close> it is undefined in C:
  there the model gives no result.\<close>

definition neg_int :: "32 word \<Rightarrow> 32 word option" where
  "neg_int x = (if x = 0x80000000 then None else Some (- x))"

definition PACK :: "32 word \<Rightarrow> 32 word \<Rightarrow> 32 word" where
  "PACK sz alloc = sz OR alloc"

definition GET :: "heap_state \<Rightarrow> addr \<Rightarrow> 32 word" where
  "GET s p = mem s p"

definition PUT :: "heap_state \<Rightarrow> addr \<Rightarrow> 32 word \<Rightarrow> heap_state" where
  "PUT s p val = s\<lparr>mem := (mem s)(p := val)\<rparr>"

definition PUT_P :: "heap_state \<Rightarrow> addr \<Rightarrow> addr \<Rightarrow> heap_state" where
  "PUT_P s p p_to = s\<lparr>mem := (mem s)(p := p_to)\<rparr>"

definition GET_SIZE :: "heap_state \<Rightarrow> addr \<Rightarrow> 32 word" where
  "GET_SIZE s p = GET s p AND NOT 7"

definition GET_ALLOC :: "heap_state \<Rightarrow> addr \<Rightarrow> 32 word" where
  "GET_ALLOC s p = GET s p AND 1"

definition HDRP :: "addr \<Rightarrow> addr" where
  "HDRP bp = bp - WSIZE"

definition FTRP :: "heap_state \<Rightarrow> addr \<Rightarrow> addr" where
  "FTRP s bp = bp + GET_SIZE s (HDRP bp) - DSIZE"

definition NEXT_BLKP :: "heap_state \<Rightarrow> addr \<Rightarrow> addr" where
  "NEXT_BLKP s bp = bp + GET_SIZE s (bp - WSIZE)"

definition PREV_BLKP :: "heap_state \<Rightarrow> addr \<Rightarrow> addr" where
  "PREV_BLKP s bp = bp - GET_SIZE s (bp - DSIZE)"

definition PRED_PTR :: "addr \<Rightarrow> addr" where
  "PRED_PTR bp = bp"

definition SUCC_PTR :: "addr \<Rightarrow> addr" where
  "SUCC_PTR bp = bp + WSIZE"

definition PRED :: "heap_state \<Rightarrow> addr \<Rightarrow> addr" where
  "PRED s bp = mem s bp"

definition SUCC :: "heap_state \<Rightarrow> addr \<Rightarrow> addr" where
  "SUCC s bp = mem s (SUCC_PTR bp)"

subsection \<open>The heap-growth primitive\<close>

text \<open>
  Modelled from the spec: \<open>mem_sbrk\<close> of memlib.c, which is not part of the sources.
  The spec's growth primitive returns the start of a new region of exactly the asked
  number of bytes, right after the region returned before, and fails when the resource
  is exhausted, leaving all prior state untouched. mm.c tests the failure as the
  pointer value \<open>-1\<close>.
\<close>

definition mem_sbrk :: "heap_state \<Rightarrow> 32 word \<Rightarrow> heap_state \<times> addr" where
  "mem_sbrk s incr =
     (if unat (mem_brk s) + unat incr > unat (mem_max_addr s) then (s, - 1)
      else (s\<lparr>mem_brk := mem_brk s + incr\<rparr>, mem_brk s))"

subsection \<open>The segregated free list\<close>

text \<open>The loop \<open>while ((size > 1) && (class_idx < MAXCLASS - 1))\<close> of
  \<open>insert_list\<close> and \<open>remove_list\<close>; it returns the shifted size and the index.\<close>

function class_loop :: "32 word \<Rightarrow> nat \<Rightarrow> 32 word \<times> nat" where
  "class_loop sz class_idx =
     (if sz > 1 \<and> class_idx < MAXCLASS - 1
      then class_loop (drop_bit 1 sz) (class_idx + 1)
      else (sz, class_idx))"
  by pat_completeness auto
termination
  by (relation "measure (\<lambda>(sz, class_idx). MAXCLASS - 1 - class_idx)") auto

declare class_loop.simps [simp del]

definition class_slot :: "heap_state \<Rightarrow> nat \<Rightarrow> addr" where
  "class_slot s class_idx = heap_listp s + of_nat class_idx * WSIZE"

text \<open>The position search of \<open>insert_list\<close>; it returns \<open>(current_ptr, last_ptr)\<close>.\<close>

partial_function (option) insert_search ::
  "heap_state \<Rightarrow> 32 word \<Rightarrow> addr \<Rightarrow> addr \<Rightarrow> (addr \<times> addr) option" where
  "insert_search s sz current_ptr last_ptr =
     (if current_ptr \<noteq> NULL \<and> sz > GET_SIZE s (HDRP current_ptr)
      then insert_search s sz (SUCC s current_ptr) current_ptr
      else Some (current_ptr, last_ptr))"

declare insert_search.simps [code]

definition insert_list :: "heap_state \<Rightarrow> addr \<Rightarrow> 32 word \<Rightarrow> heap_state option" where
  "insert_list s bp sz0 =
     (let (sz, class_idx) = class_loop sz0 0;
          class_ptr = class_slot s class_idx
      in do {
        (current_ptr, last_ptr) \<leftarrow> insert_search s sz (GET s class_ptr) NULL;
        let s1 = PUT_P s (PRED_PTR bp) last_ptr;
        let s2 = PUT_P s1 (SUCC_PTR bp) current_ptr;
        let s3 = (if current_ptr \<noteq> NULL then PUT_P s2 (PRED_PTR current_ptr) bp else s2);
        Some (if last_ptr \<noteq> NULL then PUT_P s3 (SUCC_PTR last_ptr) bp
              else PUT_P s3 class_ptr bp)
      })"

definition remove_list :: "heap_state \<Rightarrow> addr \<Rightarrow> heap_state" where
  "remove_list s bp =
     (let (sz, class_idx) = class_loop (GET_SIZE s (HDRP bp)) 0;
          class_ptr = class_slot s class_idx;
          s1 = (if PRED s bp \<noteq> NULL then PUT_P s (SUCC_PTR (PRED s bp)) (SUCC s bp)
                else PUT_P s class_ptr (SUCC s bp))
      in if SUCC s1 bp \<noteq> NULL then PUT_P s1 (PRED_PTR (SUCC s1 bp)) (PRED s1 bp) else s1)"

subsection \<open>Coalescing, extension, placement, search\<close>

definition coalesce :: "heap_state \<Rightarrow> addr \<Rightarrow> 32 word \<Rightarrow> (heap_state \<times> addr) option" where
  "coalesce s bp sz =
     (let prev_alloc = GET_ALLOC s (HDRP (PREV_BLKP s bp));
          next_alloc = GET_ALLOC s (HDRP (NEXT_BLKP s bp))
      in if prev_alloc \<noteq> 0 \<and> next_alloc \<noteq> 0 then
           do { s' \<leftarrow> insert_list s bp sz; Some (s', bp) }
         else if prev_alloc \<noteq> 0 \<and> next_alloc = 0 then
           (let s1 = remove_list s (NEXT_BLKP s bp);
                sz1 = sz + GET_SIZE s1 (HDRP (NEXT_BLKP s1 bp));
                s2 = PUT s1 (HDRP bp) (PACK sz1 0);
                s3 = PUT s2 (FTRP s2 bp) (PACK sz1 0)
            in do { s' \<leftarrow> insert_list s3 bp sz1; Some (s', bp) })
         else if prev_alloc = 0 \<and> next_alloc \<noteq> 0 then
           (let s1 = remove_list s (PREV_BLKP s bp);
                sz1 = sz + GET_SIZE s1 (HDRP (PREV_BLKP s1 bp));
                s2 = PUT s1 (FTRP s1 bp) (PACK sz1 0);
                s3 = PUT s2 (HDRP (PREV_BLKP s2 bp)) (PACK sz1 0);
                bp1 = PREV_BLKP s3 bp
            in do { s' \<leftarrow> insert_list s3 bp1 sz1; Some (s', bp1) })
         else
           (let s1 = remove_list s (PREV_BLKP s bp);
                s2 = remove_list s1 (NEXT_BLKP s1 bp);
                sz1 = sz + (GET_SIZE s2 (HDRP (PREV_BLKP s2 bp))
                                + GET_SIZE s2 (HDRP (NEXT_BLKP s2 bp)));
                s3 = PUT s2 (HDRP (PREV_BLKP s2 bp)) (PACK sz1 0);
                s4 = PUT s3 (FTRP s3 (NEXT_BLKP s3 bp)) (PACK sz1 0);
                bp1 = PREV_BLKP s4 bp
            in do { s' \<leftarrow> insert_list s4 bp1 sz1; Some (s', bp1) }))"

definition extend_heap :: "heap_state \<Rightarrow> 32 word \<Rightarrow> (heap_state \<times> addr) option" where
  "extend_heap s sz0 =
     (let sz = ALIGN sz0;
          (s1, bp) = mem_sbrk s sz
      in if bp = - 1 then Some (s1, NULL)
         else
           (let s2 = PUT s1 (HDRP bp) (PACK sz 0);
                s3 = PUT s2 (FTRP s2 bp) (PACK sz 0);
                s4 = PUT s3 (HDRP (NEXT_BLKP s3 bp)) (PACK 0 1)
            in coalesce s4 bp sz))"

definition place :: "heap_state \<Rightarrow> addr \<Rightarrow> 32 word \<Rightarrow> (heap_state \<times> addr) option" where
  "place s bp asize =
     (let csize = GET_SIZE s (HDRP bp);
          remain = csize - asize;
          s1 = remove_list s bp
      in if remain < 2 * DSIZE then
           (let s2 = PUT s1 (HDRP bp) (PACK csize 1);
                s3 = PUT s2 (FTRP s2 bp) (PACK csize 1)
            in Some (s3, bp))
         else if asize < 96 then
           (let s2 = PUT s1 (HDRP bp) (PACK asize 1);
                s3 = PUT s2 (FTRP s2 bp) (PACK asize 1);
                s4 = PUT s3 (HDRP (NEXT_BLKP s3 bp)) (PACK remain 0);
                s5 = PUT s4 (FTRP s4 (NEXT_BLKP s4 bp)) (PACK remain 0)
            in do { s6 \<leftarrow> insert_list s5 (NEXT_BLKP s5 bp) remain; Some (s6, bp) })
         else
           (let s2 = PUT s1 (HDRP bp) (PACK remain 0);
                s3 = PUT s2 (FTRP s2 bp) (PACK remain 0)
            in do {
              s4 \<leftarrow> insert_list s3 bp remain;
              let bp1 = NEXT_BLKP s4 bp;
              let s5 = PUT s4 (HDRP bp1) (PACK asize 1);
              let s6 = PUT s5 (FTRP s5 bp1) (PACK asize 1);
              Some (s6, bp1)
            }))"

text \<open>The inner loop \<open>while ((bp != NULL) && (asize > GET_SIZE(HDRP(bp))))\<close> of
  \<open>find_fit\<close>.\<close>

partial_function (option) find_fit_scan ::
  "heap_state \<Rightarrow> 32 word \<Rightarrow> addr \<Rightarrow> addr option" where
  "find_fit_scan s asize bp =
     (if bp \<noteq> NULL \<and> asize > GET_SIZE s (HDRP bp)
      then find_fit_scan s asize (SUCC s bp)
      else Some bp)"

declare find_fit_scan.simps [code]

text \<open>The outer loop of \<open>find_fit\<close>, with the loop variables \<open>size\<close>, \<open>class_idx\<close>
  and \<open>bp\<close>.\<close>

function find_fit_loop ::
  "heap_state \<Rightarrow> 32 word \<Rightarrow> 32 word \<Rightarrow> nat \<Rightarrow> addr \<Rightarrow> addr option" where
  "find_fit_loop s asize sz class_idx bp =
     (if class_idx < MAXCLASS then
        (if sz \<le> 1 then
           (let bp1 = GET s (class_slot s class_idx)
            in if bp1 \<noteq> NULL then
                 (case find_fit_scan s asize bp1 of
                    None \<Rightarrow> None
                  | Some bp2 \<Rightarrow>
                      if bp2 \<noteq> NULL then Some bp2
                      else find_fit_loop s asize (drop_bit 1 sz) (class_idx + 1) bp2)
               else find_fit_loop s asize (drop_bit 1 sz) (class_idx + 1) bp1)
         else find_fit_loop s asize (drop_bit 1 sz) (class_idx + 1) bp)
      else Some bp)"
  by pat_completeness auto
termination
  by (relation "measure (\<lambda>(s, asize, sz, class_idx, bp). MAXCLASS - class_idx)") auto

declare find_fit_loop.simps [simp del]

definition find_fit :: "heap_state \<Rightarrow> 32 word \<Rightarrow> addr option" where
  "find_fit s asize = find_fit_loop s asize asize 0 NULL"

subsection \<open>The public operations\<close>

text \<open>The loop \<open>for (i = 0; i < MAXCLASS; i++)\<close> of \<open>mm_init\<close>.\<close>

function init_classes :: "heap_state \<Rightarrow> nat \<Rightarrow> heap_state" where
  "init_classes s i =
     (if i < MAXCLASS then init_classes (PUT_P s (class_slot s i) NULL) (i + 1) else s)"
  by pat_completeness auto
termination
  by (relation "measure (\<lambda>(s, i). MAXCLASS - i)") auto

declare init_classes.simps [simp del]

definition mm_init :: "heap_state \<Rightarrow> (heap_state \<times> int) option" where
  "mm_init s =
     (let (s0, p) = mem_sbrk s ((3 + of_nat MAXCLASS) * WSIZE);
          s1 = s0\<lparr>heap_listp := p\<rparr>
      in if p = - 1 then Some (s1, - 1)
         else
           (let s2 = init_classes s1 0;
                s3 = PUT s2 (heap_listp s2 + of_nat MAXCLASS * WSIZE) (PACK DSIZE 1);
                s4 = PUT s3 (heap_listp s3 + (1 + of_nat MAXCLASS) * WSIZE) (PACK DSIZE 1);
                s5 = PUT s4 (heap_listp s4 + (2 + of_nat MAXCLASS) * WSIZE) (PACK 0 1)
            in do {
              (s6, bp) \<leftarrow> extend_heap s5 CHUNKSIZE;
              if bp = NULL then Some (s6, - 1) else Some (s6, 0)
            }))"

text \<open>The size adjustment shared by \<open>mm_malloc\<close> and \<open>mm_realloc\<close>.\<close>

definition adjust :: "32 word \<Rightarrow> 32 word" where
  "adjust sz = (if sz \<le> DSIZE then 2 * DSIZE else ALIGN (sz + DSIZE))"

definition mm_malloc :: "heap_state \<Rightarrow> 32 word \<Rightarrow> (heap_state \<times> addr) option" where
  "mm_malloc s sz =
     (if sz = 0 then Some (s, NULL)
      else
        (let asize = adjust sz
         in do {
           bp \<leftarrow> find_fit s asize;
           if bp \<noteq> NULL then place s bp asize
           else do {
             let extendsize = MAX_size asize CHUNKSIZE;
             (s1, bp1) \<leftarrow> extend_heap s extendsize;
             if bp1 = NULL then Some (s1, NULL) else place s1 bp1 asize
           }
         }))"

definition mm_free :: "heap_state \<Rightarrow> addr \<Rightarrow> heap_state option" where
  "mm_free s bp =
     (let sz = GET_SIZE s (HDRP bp);
          s1 = PUT s (HDRP bp) (PACK sz 0);
          s2 = PUT s1 (FTRP s1 bp) (PACK sz 0)
      in map_option fst (coalesce s2 bp sz))"

text \<open>
  \<open>memcpy(dst, src, n)\<close> for word-aligned arguments: the \<open>n\<close> bytes at \<open>dst\<close> take
  the old contents of the \<open>n\<close> bytes at \<open>src\<close>. Writing through a null \<open>dst\<close> does
  not return.
\<close>

definition memcpy :: "heap_state \<Rightarrow> addr \<Rightarrow> addr \<Rightarrow> 32 word \<Rightarrow> heap_state option" where
  "memcpy s dst src n =
     (if dst = NULL \<and> n \<noteq> 0 then None
      else Some (s\<lparr>mem := (\<lambda>a. if a - dst < n then mem s (src + (a - dst)) else mem s a)\<rparr>))"

text \<open>The end of the in-place branch of \<open>mm_realloc\<close>: the following block leaves
  its list and \<open>ptr\<close>'s block takes \<open>sz + remain\<close> bytes.\<close>

definition realloc_absorb ::
  "heap_state \<Rightarrow> addr \<Rightarrow> 32 word \<Rightarrow> 32 word \<Rightarrow> (heap_state \<times> addr) option" where
  "realloc_absorb s ptr sz remain =
     (let s1 = remove_list s (NEXT_BLKP s ptr);
          s2 = PUT s1 (HDRP ptr) (PACK (sz + remain) 1);
          s3 = PUT s2 (FTRP s2 ptr) (PACK (sz + remain) 1)
      in Some (s3, ptr))"

definition mm_realloc ::
  "heap_state \<Rightarrow> addr \<Rightarrow> 32 word \<Rightarrow> (heap_state \<times> addr) option" where
  "mm_realloc s ptr sz0 =
     (if sz0 = 0 then Some (s, NULL)
      else
        (let sz = adjust sz0;
             remain = GET_SIZE s (HDRP ptr) - sz
         in if 0 \<le>s remain then Some (s, ptr)
            else if GET_ALLOC s (HDRP (NEXT_BLKP s ptr)) = 0
                    \<or> GET_SIZE s (HDRP (NEXT_BLKP s ptr)) = 0 then
              (let remain1 = GET_SIZE s (HDRP ptr) + GET_SIZE s (HDRP (NEXT_BLKP s ptr)) - sz
               in if remain1 <s 0 then
                    do {
                      m \<leftarrow> neg_int remain1;
                      (s1, bp) \<leftarrow> extend_heap s (MAX_int m CHUNKSIZE);
                      if bp = NULL then Some (s1, NULL)
                      else realloc_absorb s1 ptr sz (remain1 + MAX_int m CHUNKSIZE)
                    }
                  else realloc_absorb s ptr sz remain1)
            else do {
              (s1, newptr) \<leftarrow> mm_malloc s sz;
              s2 \<leftarrow> memcpy s1 newptr ptr (GET_SIZE s1 (HDRP ptr));
              s3 \<leftarrow> mm_free s2 ptr;
              Some (s3, newptr)
            }))"

section \<open>The placement policy in the words of the specification\<close>




section \<open>The nodes of the free lists\<close>



section \<open>Concrete heaps\<close>

text \<open>A machine whose memory is zero-filled, with the break at \<open>0x1000\<close> and room up
  to \<open>limit\<close>.\<close>

definition machine :: "addr \<Rightarrow> heap_state" where
  "machine limit = \<lparr>mem = (\<lambda>_. 0), heap_listp = 0, mem_brk = 0x1000, mem_max_addr = limit\<rparr>"

text \<open>The heap after \<open>mm_init\<close> on a machine with one megabyte: the 15 class slots at
  4096, the prologue, one free block of 4096 bytes at 4168 in class 12, the epilogue.\<close>

definition initial_heap :: heap_state where
  "initial_heap =
     \<lparr>mem = (\<lambda>_. 0)
        (4096 := 0, 4100 := 0, 4104 := 0, 4108 := 0, 4112 := 0, 4116 := 0, 4120 := 0,
         4124 := 0, 4128 := 0, 4132 := 0, 4136 := 0, 4140 := 0, 4148 := 0, 4152 := 0,
         4156 := 9, 4160 := 9, 4164 := 4096, 8256 := 4096, 8260 := 1, 4168 := 0,
         4172 := 0, 4144 := 4168),
      heap_listp = 4096, mem_brk = 8264, mem_max_addr = 0x100000\<rparr>"

text \<open>The heap after \<open>a = mm_malloc(8)\<close>, \<open>b = mm_malloc(8)\<close>, \<open>c = mm_malloc(16)\<close>,
  \<open>d = mm_malloc(8)\<close> and \<open>mm_free(a)\<close> on \<open>initial_heap\<close>: \<open>a = 4168\<close> is a free
  block of 16 bytes, alone in class 4; \<open>b = 4184\<close>, \<open>c = 4200\<close> and \<open>d = 4224\<close> are
  allocated.\<close>

definition heap_one_freed :: heap_state where
  "heap_one_freed =
     \<lparr>mem = (\<lambda>_. 0)
        (4096 := 0, 4100 := 0, 4104 := 0, 4108 := 0, 4116 := 0, 4120 := 0, 4124 := 0,
         4128 := 0, 4132 := 0, 4136 := 0, 4148 := 0, 4152 := 0, 4156 := 9, 4160 := 9,
         8260 := 1, 4144 := 0, 4184 := 0, 4188 := 0, 4180 := 17, 4192 := 17, 4200 := 0,
         4204 := 0, 4196 := 25, 4216 := 25, 4224 := 0, 4228 := 0, 4220 := 17, 4232 := 17,
         4236 := 4024, 8256 := 4024, 4240 := 0, 4244 := 0, 4140 := 4240, 4164 := 16,
         4176 := 16, 4168 := 0, 4172 := 0, 4112 := 4168),
      heap_listp = 4096, mem_brk = 8264, mem_max_addr = 0x100000\<rparr>"

definition run_one_freed :: "(heap_state \<times> addr \<times> addr \<times> addr \<times> addr) option" where
  "run_one_freed =
     do {
       (s, _) \<leftarrow> mm_init (machine 0x100000);
       (s, a) \<leftarrow> mm_malloc s 8;
       (s, b) \<leftarrow> mm_malloc s 8;
       (s, c) \<leftarrow> mm_malloc s 16;
       (s, d) \<leftarrow> mm_malloc s 8;
       s \<leftarrow> mm_free s a;
       Some (s, a, b, c, d)
     }"

text \<open>
  On a machine with room for it, a block \<open>a\<close> of 112 bytes is allocated at the end of
  the heap and reallocated to \<open>0x80000040\<close> bytes, which extends it in place to
  \<open>0x80000048\<close> bytes; then it is reallocated to 8 bytes. The run returns \<open>a\<close>, its
  header word before the last call, the adjusted size of the last request, whether the
  last call left the heap as it was, and the pointer the last call returned.
\<close>

definition run_shrink_huge :: "(addr \<times> 32 word \<times> 32 word \<times> bool \<times> addr) option" where
  "run_shrink_huge =
     do {
       (s, _) \<leftarrow> mm_init (machine 0xFFFFF000);
       (s, a) \<leftarrow> mm_malloc s 100;
       (s, a) \<leftarrow> mm_realloc s a 0x80000040;
       (s', r) \<leftarrow> mm_realloc s a 8;
       Some (a, GET s (HDRP a), adjust 8, s' = s, r)
     }"

text \<open>
  Three blocks of 16 bytes \<open>a\<close>, \<open>b\<close>, \<open>c\<close> are allocated and \<open>b\<close> is freed; \<open>a\<close>
  is reallocated to 100 bytes; then \<open>c\<close> and \<open>a\<close> are freed. The run returns the first
  two nodes of class 12, their header words, and the block before the second node as
  its boundary tag gives it.
\<close>

definition run_overlap :: "(addr \<times> addr \<times> 32 word \<times> 32 word \<times> addr) option" where
  "run_overlap =
     do {
       (s, _) \<leftarrow> mm_init (machine 0x100000);
       (s, a) \<leftarrow> mm_malloc s 8;
       (s, b) \<leftarrow> mm_malloc s 8;
       (s, c) \<leftarrow> mm_malloc s 8;
       s \<leftarrow> mm_free s b;
       (s, a') \<leftarrow> mm_realloc s a 100;
       s \<leftarrow> mm_free s c;
       s \<leftarrow> mm_free s a';
       let first = GET s (class_slot s 12);
       let second = SUCC s first;
       Some (first, second, GET s (HDRP first), GET s (HDRP second), PREV_BLKP s second)
     }"

text \<open>Blocks of 16 and of 24 bytes, kept apart by allocated blocks, are freed in this
  order. The run returns the first two nodes of class 4 and their sizes.\<close>

definition run_unsorted :: "(addr \<times> addr \<times> 32 word \<times> 32 word) option" where
  "run_unsorted =
     do {
       (s, _) \<leftarrow> mm_init (machine 0x100000);
       (s, a) \<leftarrow> mm_malloc s 8;
       (s, b) \<leftarrow> mm_malloc s 8;
       (s, c) \<leftarrow> mm_malloc s 16;
       (s, d) \<leftarrow> mm_malloc s 8;
       s \<leftarrow> mm_free s a;
       s \<leftarrow> mm_free s c;
       let first = GET s (class_slot s 4);
       let second = SUCC s first;
       Some (first, second, GET_SIZE s (HDRP first), GET_SIZE s (HDRP second))
     }"

text \<open>
  A block of 40008 bytes is allocated and freed, and the same request is made again. The
  run returns the class index of the request, the head of that class and its header word
  before the second request, the adjusted size, the result of \<open>find_fit\<close>, and the break
  before and after the second request.
\<close>

definition run_large_fit ::
  "(nat \<times> addr \<times> 32 word \<times> 32 word \<times> addr \<times> addr \<times> addr) option" where
  "run_large_fit =
     do {
       (s, _) \<leftarrow> mm_init (machine 0x100000);
       (s, a) \<leftarrow> mm_malloc s 40000;
       s \<leftarrow> mm_free s a;
       let blk = GET s (class_slot s 14);
       fit \<leftarrow> find_fit s (adjust 40000);
       (s', p) \<leftarrow> mm_malloc s 40000;
       Some (snd (class_loop (adjust 40000) 0), blk, GET s (HDRP blk), adjust 40000, fit,
             mem_brk s, mem_brk s')
     }"

text \<open>
  On a machine with room for the initial heap only, \<open>a\<close> and \<open>b\<close> are allocated and
  \<open>a\<close> is reallocated to 5000 bytes. The run returns \<open>a\<close>, the header words of \<open>a\<close>
  and of the block after it, the result of the allocation that \<open>mm_realloc\<close> makes, and
  the result of \<open>mm_realloc\<close> (\<open>None\<close> when it does not return).
\<close>

definition run_realloc_exhausted ::
  "(addr \<times> 32 word \<times> 32 word \<times> addr \<times> addr option) option" where
  "run_realloc_exhausted =
     do {
       (s, _) \<leftarrow> mm_init (machine 8264);
       (s, a) \<leftarrow> mm_malloc s 8;
       (s, b) \<leftarrow> mm_malloc s 8;
       (s1, p) \<leftarrow> mm_malloc s (adjust 5000);
       Some (a, GET s (HDRP a), GET s (HDRP (NEXT_BLKP s a)), p,
             map_option snd (mm_realloc s a 5000))
     }"

section \<open>Evaluation and word arithmetic\<close>

lemmas macro_defs = ALIGN_def WSIZE_def DSIZE_def CHUNKSIZE_def MAXCLASS_def MAX_size_def
  MAX_int_def PACK_def GET_def PUT_def PUT_P_def GET_SIZE_def GET_ALLOC_def HDRP_def FTRP_def
  NEXT_BLKP_def PREV_BLKP_def PRED_PTR_def SUCC_PTR_def PRED_def SUCC_def class_slot_def

lemmas op_defs = mem_sbrk_def class_loop.simps insert_search.simps insert_list_def
  remove_list_def coalesce_def extend_heap_def place_def find_fit_scan.simps
  find_fit_loop.simps find_fit_def init_classes.simps mm_init_def adjust_def mm_malloc_def
  mm_free_def memcpy_def realloc_absorb_def neg_int_def mm_realloc_def

text \<open>Evaluation is by value: the simplifier rewrites a continuation only once its
  argument is a value.\<close>

lemma bind_weak_cong: "x = y \<Longrightarrow> Option.bind x f = Option.bind y f"
  by simp

lemmas eval_congs = bind_weak_cong let_weak_cong prod.case_cong_weak option.case_cong_weak

lemma bit31: "bit (uint (x::32 word)) 31 = (2 ^ 31 \<le> uint x)"
proof -
  have r: "0 \<le> uint x" "uint x < 2 ^ 32" using uint_lt2p [of x] by simp_all
  show ?thesis
  proof (cases "uint x < 2 ^ 31")
    case True
    then have "uint x div 2 ^ 31 = 0" using r by (simp add: div_pos_pos_trivial)
    then show ?thesis using True by (simp add: bit_iff_odd)
  next
    case False
    then have "uint x div 2 ^ 31 = 1" using r
      by (intro int_div_pos_eq [where r="uint x - 2 ^ 31"]) simp_all
    then show ?thesis using False by (simp add: bit_iff_odd)
  qed
qed

lemma sle0_iff: "(0 \<le>s (x::32 word)) = (x < 2 ^ 31)"
  by (simp add: word_sle_eq sint_uint word_less_alt not_le bit31)

lemma sless0_iff: "((x::32 word) <s 0) = (2 ^ 31 \<le> x)"
  using sle0_iff [of x] by (auto simp: word_sless_alt word_sle_eq not_le not_less)

lemma le_one_numeral: "((numeral k :: 32 word) \<le> 1) = (unat (numeral k :: 32 word) \<le> 1)"
  by (simp add: word_le_nat_alt)

lemma le1_not_gt: "sz \<le> (1::32 word) \<Longrightarrow> y \<noteq> 0 \<Longrightarrow> \<not> sz > y"
  by (simp add: word_le_nat_alt word_less_nat_alt unat_eq_0 [symmetric] del: unat_eq_0)

lemma unat_drop_bit1: "unat (drop_bit (Suc 0) (w :: 32 word)) = unat w div 2"
  by (simp add: drop_bit_eq_div unat_div)
















section \<open>Reachable concrete heaps\<close>

lemma mm_init_machine: "mm_init (machine 0x100000) = Some (initial_heap, 0)"
  by (simp add: initial_heap_def machine_def macro_defs op_defs Let_def cong: eval_congs)

lemma run_one_freed_value: "run_one_freed = Some (heap_one_freed, 4168, 4184, 4200, 4224)"
  by (simp add: run_one_freed_def heap_one_freed_def machine_def macro_defs op_defs Let_def
      cong: eval_congs)

section \<open>Placement\<close>








section \<open>Degenerate requests\<close>

text \<open>
  Claim C6. A request of size 0 is a no-op: \<open>mm_malloc(0)\<close> returns null and leaves the
  heap as it is, and \<open>mm_realloc(ptr, 0)\<close> returns null and leaves the heap as it is,
  so \<open>ptr\<close> is not freed.
\<close>

theorem degenerate_requests_are_noops:
  "mm_malloc s 0 = Some (s, NULL) \<and> mm_realloc s ptr 0 = Some (s, NULL)"
  by (simp add: mm_malloc_def mm_realloc_def)

section \<open>Reallocation within the block\<close>

text \<open>
  \<open>mm_realloc\<close> keeps the difference between the block size and the adjusted size in
  an \<open>int\<close> and tests its sign. Where the adjusted size is at most the size of the block
  and less than \<open>2^31\<close> below it, \<open>mm_realloc\<close> returns the pointer it was given and
  leaves the whole heap unchanged.
\<close>

lemma realloc_small_gap_unchanged:
  assumes "sz0 \<noteq> 0" and "adjust sz0 \<le> GET_SIZE s (HDRP p)"
    and "GET_SIZE s (HDRP p) - adjust sz0 < 2 ^ 31"
  shows "mm_realloc s p sz0 = Some (s, p)"
  using assms(1,3) by (simp add: mm_realloc_def Let_def sle0_iff)

text \<open>
  Claim C8 fails in \<open>run_shrink_huge\<close>. The block \<open>a\<close> at 8152 is allocated and has
  \<open>0x80000048\<close> bytes (header word 2147483721); the new size 8 is above 0 and its
  adjusted size 16 is at most the size of the block. The difference \<open>0x80000038\<close> is
  negative as an \<open>int\<close>, so \<open>mm_realloc\<close> takes the block for too small, asks for
  \<open>0x7FFFFFC8\<close> more bytes, which the machine does not have, and returns null where the
  claim says it returns \<open>a\<close>.
\<close>

theorem realloc_within_huge_block_returns_null:
  "run_shrink_huge = Some (8152, 2147483721, 16, True, NULL)"
  by (simp add: run_shrink_huge_def machine_def macro_defs op_defs Let_def le_one_numeral
      sle0_iff sless0_iff cong: eval_congs)

section \<open>Insertion into a size class\<close>

lemma class_loop_small:
  "class_loop sz0 i = (sz, idx) \<Longrightarrow> idx < MAXCLASS - 1 \<Longrightarrow> sz \<le> 1"
proof (induction sz0 i rule: class_loop.induct)
  case (1 sz0 i)
  then show ?case
    by (subst (asm) (2) class_loop.simps) (auto split: if_splits simp: not_less)
qed

text \<open>
  Claim C9. When the shift loop of \<open>insert_list\<close> stops at a class index below the last
  one, the shifted size is at most 1, so the position search stops at the head of the
  class whatever the sizes of the nodes (which are not 0): the block becomes the head,
  its predecessor link is null, its successor link is the old head, and the old head's
  predecessor link is the block.
\<close>

theorem insert_list_splices_at_head:
  assumes "class_loop sz0 0 = (sz, class_idx)" and "class_idx < MAXCLASS - 1"
    and "GET s (class_slot s class_idx) = head"
    and "head \<noteq> NULL \<longrightarrow> GET_SIZE s (HDRP head) \<noteq> 0"
  shows "insert_search s sz head NULL = Some (head, NULL) \<and>
         insert_list s bp sz0 =
           Some (s\<lparr>mem := (if head \<noteq> NULL
                            then (mem s)(bp := NULL, bp + 4 := head, head := bp,
                                         class_slot s class_idx := bp)
                            else (mem s)(bp := NULL, bp + 4 := NULL,
                                         class_slot s class_idx := bp))\<rparr>)"
proof -
  have small: "sz \<le> 1" using assms(1,2) by (rule class_loop_small)
  have stop: "\<not> (head \<noteq> NULL \<and> sz > GET_SIZE s (HDRP head))"
    using small assms(4) by (auto dest: le1_not_gt)
  have search: "insert_search s sz head NULL = Some (head, NULL)"
    using stop by (subst insert_search.simps) auto
  show ?thesis
    using search assms(1,3)
    by (simp add: insert_list_def PUT_P_def PRED_PTR_def SUCC_PTR_def WSIZE_def class_slot_def)
qed

theorem insert_list_splices_at_head_witness:
  "class_loop 24 0 = (1, 4) \<and> 4 < MAXCLASS - 1
   \<and> GET heap_one_freed (class_slot heap_one_freed 4) = 4168
   \<and> GET_SIZE heap_one_freed (HDRP 4168) = 16
   \<and> insert_search heap_one_freed 1 4168 NULL = Some (4168, NULL)
   \<and> insert_list heap_one_freed 4200 24 =
       Some (heap_one_freed\<lparr>mem := (mem heap_one_freed)
               (4200 := NULL, 4204 := 4168, 4168 := 4200, 4112 := 4200)\<rparr>)"
proof -
  have c: "class_loop 24 0 = (1, 4)"
    by (simp add: class_loop.simps MAXCLASS_def)
  have g: "GET heap_one_freed (class_slot heap_one_freed 4) = 4168"
    "GET_SIZE heap_one_freed (HDRP 4168) = 16" "class_slot heap_one_freed 4 = 4112"
    by (simp_all add: heap_one_freed_def macro_defs)
  show ?thesis
    using insert_list_splices_at_head [of 24 1 4 heap_one_freed 4168 4200] c g
    by (simp add: MAXCLASS_def)
qed

section \<open>Large requests\<close>

lemma find_fit_loop_large:
  "2 ^ (MAXCLASS - class_idx) \<le> unat sz \<Longrightarrow> class_idx \<le> MAXCLASS
   \<Longrightarrow> find_fit_loop s asize sz class_idx bp = Some bp"
proof (induction s asize sz class_idx bp rule: find_fit_loop.induct)
  case (1 s asize sz class_idx bp)
  show ?case
  proof (cases "class_idx < MAXCLASS")
    case False
    then show ?thesis by (subst find_fit_loop.simps) simp
  next
    case True
    then obtain k where k: "MAXCLASS - class_idx = Suc k"
      by (cases "MAXCLASS - class_idx") auto
    with "1.prems" have big: "2 * 2 ^ k \<le> unat sz" by simp
    have "2 ^ k \<ge> (1::nat)" by simp
    with big have "2 \<le> unat sz" by linarith
    then have nle: "\<not> sz \<le> 1" by (simp add: word_le_nat_alt)
    from k have k': "MAXCLASS - (class_idx + 1) = k" by simp
    from big have "2 ^ k \<le> unat (drop_bit 1 sz)" by (simp add: unat_drop_bit1)
    with k' True "1.IH"(3)[OF True nle]
    have "find_fit_loop s asize (drop_bit 1 sz) (class_idx + 1) bp = Some bp" by simp
    with True nle show ?thesis by (subst find_fit_loop.simps) simp
  qed
qed

lemma find_fit_large: "2 ^ 15 \<le> asize \<Longrightarrow> find_fit s asize = Some NULL"
  unfolding find_fit_def
  by (rule find_fit_loop_large) (simp_all add: MAXCLASS_def word_le_nat_alt)

lemma MAX_size_large: "2 ^ 15 \<le> asize \<Longrightarrow> MAX_size asize CHUNKSIZE = asize"
  by (auto simp: MAX_size_def CHUNKSIZE_def word_le_nat_alt word_less_nat_alt)

text \<open>
  Claim C10. For a request whose adjusted size is at least \<open>2^15\<close>, \<open>find_fit\<close>
  returns null whatever the free lists hold (the shifted size is above 1 at every class
  index, so no class is scanned), and \<open>mm_malloc\<close> serves the request by extending the
  heap by the adjusted size and placing it in the block that \<open>extend_heap\<close> returns.
\<close>

theorem find_fit_large_request_null:
  assumes "2 ^ 15 \<le> adjust sz"
  shows "find_fit s (adjust sz) = Some NULL \<and>
         mm_malloc s sz =
           do { (s1, bp1) \<leftarrow> extend_heap s (adjust sz);
                if bp1 = NULL then Some (s1, NULL) else place s1 bp1 (adjust sz) }"
proof -
  have "sz \<noteq> 0" using assms by (auto simp: adjust_def DSIZE_def)
  then show ?thesis using assms
    by (simp add: mm_malloc_def find_fit_large MAX_size_large Let_def)
qed

theorem find_fit_large_request_null_witness:
  "(2 ^ 15 :: 32 word) \<le> adjust 40000 \<and> find_fit initial_heap (adjust 40000) = Some NULL
   \<and> mm_malloc initial_heap 40000 =
       do { (s1, bp1) \<leftarrow> extend_heap initial_heap (adjust 40000);
            if bp1 = NULL then Some (s1, NULL) else place s1 bp1 (adjust 40000) }"
proof -
  have a: "adjust 40000 = 40008" by (simp add: adjust_def ALIGN_def DSIZE_def)
  show ?thesis
    using find_fit_large_request_null [of 40000 initial_heap] by (simp add: a)
qed

section \<open>Runs of the public operations\<close>

text \<open>
  Claim C1 fails on the code. \<open>mm_realloc\<close> grows a block into a free successor that is
  too small by extending the heap, also when that successor is not the last block; the
  block then spans the blocks after it. In \<open>run_overlap\<close> the last \<open>mm_free\<close>
  returns with two free blocks at the head of class 12: the block at 4168, whose header
  says 4128 bytes and free, and the block at 4184, whose header says 8176 bytes and free
  and whose preceding block, by its boundary tag, is the free block at 4168.
\<close>

theorem realloc_leaves_adjacent_free_blocks:
  "run_overlap = Some (4168, 4184, 4128, 8176, 4168)"
  by (simp add: run_overlap_def machine_def macro_defs op_defs Let_def sle0_iff sless0_iff
      cong: eval_congs)

text \<open>
  Claim C2 fails on the code. The position search of \<open>insert_list\<close> compares the
  shifted size with the sizes of the nodes, so a block enters at the head of its class.
  In \<open>run_unsorted\<close> class 4 holds the block of 24 bytes at 4200 before the block of
  16 bytes at 4168: the list is not in ascending order of size.
\<close>

theorem free_list_not_sorted:
  "run_unsorted = Some (4200, 4168, 24, 16)"
  by (simp add: run_unsorted_def machine_def macro_defs op_defs Let_def cong: eval_congs)

text \<open>
  Claim C3 fails on the code. In \<open>run_large_fit\<close> the request of 40008 bytes belongs
  to class 14, class 14 holds the free block at 4168 of 44104 bytes, \<open>find_fit\<close> returns
  null, and \<open>mm_malloc\<close> moves the break from 48272 to 88280.
\<close>

theorem find_fit_misses_large_block:
  "run_large_fit = Some (14, 4168, 44104, 40008, NULL, 48272, 88280)"
  by (simp add: run_large_fit_def machine_def macro_defs op_defs Let_def le_one_numeral
      cong: eval_congs)

text \<open>
  Claim C5 fails on the code. In \<open>run_realloc_exhausted\<close> the block \<open>a\<close> at 4168 and
  the block after it are allocated, the heap cannot grow, and the allocation made by
  \<open>mm_realloc\<close> returns null; \<open>mm_realloc\<close> does not test it and copies the old
  block to the null pointer, so it does not return.
\<close>

theorem realloc_growth_failure_not_noop:
  "run_realloc_exhausted = Some (4168, 17, 17, NULL, None)"
  by (simp add: run_realloc_exhausted_def machine_def macro_defs op_defs Let_def
      sle0_iff sless0_iff cong: eval_congs)

section \<open>Alignment of the returned pointers\<close>















end
